theory Spec2Isabelle
  imports Complex_Main
begin

section \<open>Binary64 arithmetic\<close>

text \<open>
  The script computes the distraction score with numpy \<^verbatim>\<open>float64\<close> values. A finite
  double is modelled by the real number it denotes. \<open>fl\<close> rounds a real to the nearest
  double, ties to the even significand (the IEEE 754 default, which numpy and Python
  use), with gradual underflow below \<open>2 ^ - 1022\<close>. Overflow to infinity is not
  modelled: every sum formed by the labelling rule lies between 0 and 1.
\<close>

type_synonym float64 = real

definition pow2 :: "int \<Rightarrow> real" where
  "pow2 k = (if 0 \<le> k then 2 ^ nat k else 1 / 2 ^ nat (- k))"

definition rne :: "real \<Rightarrow> int" where
  "rne x = (let f = \<lfloor>x\<rfloor>; d = x - of_int f in
     if d < 1 / 2 then f else if 1 / 2 < d then f + 1 else if even f then f else f + 1)"

function ilog2_up :: "real \<Rightarrow> int" where
  "ilog2_up x = (if 2 \<le> x then 1 + ilog2_up (x / 2) else 0)"
  by pat_completeness auto
termination
proof (relation "measure (\<lambda>x. nat \<lfloor>x\<rfloor>)")
  fix x :: real
  assume big: "2 \<le> x"
  have "x / 2 \<le> x - 1"
    using big by simp
  then have "\<lfloor>x / 2\<rfloor> \<le> \<lfloor>x - 1\<rfloor>"
    by (rule floor_mono)
  moreover have "2 \<le> \<lfloor>x\<rfloor>"
    using big by (simp add: le_floor_iff)
  ultimately show "(x / 2, x) \<in> measure (\<lambda>x. nat \<lfloor>x\<rfloor>)"
    by simp
qed simp

function ilog2_down :: "real \<Rightarrow> int" where
  "ilog2_down x = (if 0 < x \<and> x < 1 then ilog2_down (2 * x) - 1 else 0)"
  by pat_completeness auto
termination
proof (relation "measure (\<lambda>x. nat \<lfloor>1 / x\<rfloor>)")
  fix x :: real
  assume small: "0 < x \<and> x < 1"
  define y where "y = 1 / x"
  have "1 < y"
    using small by (simp add: y_def)
  then have fy: "1 \<le> \<lfloor>y\<rfloor>"
    by (simp add: le_floor_iff)
  have "y < of_int \<lfloor>y\<rfloor> + 1"
    by linarith
  also have "\<dots> \<le> 2 * of_int \<lfloor>y\<rfloor>"
    using fy by linarith
  finally have "y / 2 < of_int \<lfloor>y\<rfloor>"
    by simp
  then have "\<lfloor>y / 2\<rfloor> < \<lfloor>y\<rfloor>"
    by (simp add: floor_less_iff)
  moreover have "1 / (2 * x) = y / 2"
    by (simp add: y_def)
  ultimately show "(2 * x, x) \<in> measure (\<lambda>x. nat \<lfloor>1 / x\<rfloor>)"
    using fy by (simp add: y_def mult.commute)
qed simp

declare ilog2_up.simps [simp del] ilog2_down.simps [simp del]

text \<open>\<open>ilog2 x\<close> is the binary exponent \<open>e\<close> of a positive \<open>x\<close>: \<open>2 ^ e \<le> x < 2 ^ (e + 1)\<close>.\<close>

definition ilog2 :: "real \<Rightarrow> int" where
  "ilog2 x = (if 1 \<le> x then ilog2_up x else ilog2_down x)"

definition fl :: "real \<Rightarrow> float64" where
  "fl x = (if x = 0 then 0 else
     let e = max (ilog2 \<bar>x\<bar>) (- 1022); u = pow2 (e - 52)
     in of_int (rne (x / u)) * u)"

definition fadd :: "float64 \<Rightarrow> float64 \<Rightarrow> float64" where
  "fadd a b = fl (a + b)"

definition fmul :: "float64 \<Rightarrow> float64 \<Rightarrow> float64" where
  "fmul a b = fl (a * b)"

section \<open>Exceptions\<close>

text \<open>
  An exception carries its class and its message. \<open>BaseOnly\<close> stands for the classes
  that derive from \<^verbatim>\<open>BaseException\<close> but not from \<^verbatim>\<open>Exception\<close>
  (\<^verbatim>\<open>KeyboardInterrupt\<close>, \<^verbatim>\<open>SystemExit\<close>), which \<^verbatim>\<open>except Exception\<close> lets through.
\<close>

datatype exc_class =
  ImportError | OSError | ValueError | IndexError | MemoryError | LibraryError | BaseOnly

datatype exc = Exc exc_class string

fun is_Exception :: "exc \<Rightarrow> bool" where
  "is_Exception (Exc c m) = (c \<noteq> BaseOnly)"

fun str_exc :: "exc \<Rightarrow> string" where
  "str_exc (Exc c m) = m"

section \<open>Synthetic data\<close>

text \<open>
  The legacy \<^verbatim>\<open>numpy.random\<close> interface keeps one global generator. Its state has the
  abstract type \<open>'g\<close>; \<open>seed\<close> replaces the state by the one the seed determines, and
  each distribution draws one value and advances the state. The arguments are the
  distribution parameters the script passes. \<open>alloc_error n\<close> is what allocating a result
  array of \<open>n\<close> entries raises on the machine at hand (a \<^verbatim>\<open>MemoryError\<close>), if anything.
\<close>

record 'g np_random =
  seed :: "nat \<Rightarrow> 'g"
  exponential :: "float64 \<Rightarrow> 'g \<Rightarrow> float64 \<times> 'g"
  negative_binomial :: "int \<Rightarrow> float64 \<Rightarrow> 'g \<Rightarrow> int \<times> 'g"
  beta :: "float64 \<Rightarrow> float64 \<Rightarrow> 'g \<Rightarrow> float64 \<times> 'g"
  poisson :: "float64 \<Rightarrow> 'g \<Rightarrow> int \<times> 'g"
  alloc_error :: "int \<Rightarrow> exc option"

text \<open>\<^verbatim>\<open>size=n\<close>: \<open>n\<close> successive draws, in order.\<close>

fun draws :: "('g \<Rightarrow> 'a \<times> 'g) \<Rightarrow> nat \<Rightarrow> 'g \<Rightarrow> 'a list \<times> 'g" where
  "draws f 0 g = ([], g)"
| "draws f (Suc n) g =
     (case f g of (x, g1) \<Rightarrow> case draws f n g1 of (xs, g2) \<Rightarrow> (x # xs, g2))"

text \<open>
  A call with \<^verbatim>\<open>size=n\<close>. numpy rejects a negative size and a size beyond the index
  width with a \<^verbatim>\<open>ValueError\<close>; the result array is allocated before the draws, and the
  allocation can fail.
\<close>

definition sample ::
  "'g np_random \<Rightarrow> ('g \<Rightarrow> 'a \<times> 'g) \<Rightarrow> int \<Rightarrow> 'g \<Rightarrow> (exc + 'a list) \<times> 'g" where
  "sample rnd f n g =
     (if n < 0 then (Inl (Exc ValueError ''negative dimensions are not allowed''), g)
      else if 2 ^ 63 \<le> n then (Inl (Exc ValueError ''Maximum allowed dimension exceeded''), g)
      else case alloc_error rnd n of
             Some e \<Rightarrow> (Inl e, g)
           | None \<Rightarrow> (case draws f (nat n) g of (xs, g') \<Rightarrow> (Inr xs, g')))"

text \<open>The feature table: one column per key of the \<^verbatim>\<open>data\<close> dictionary.\<close>

record dataframe =
  timeSpent :: "float64 list"
  scrollCount :: "int list"
  scrollDepth :: "float64 list"
  clickCount :: "int list"
  tabSwitches :: "int list"
  videoWatchTime :: "float64 list"

text \<open>\<^verbatim>\<open>X.columns\<close>: the keys of \<^verbatim>\<open>data\<close> in insertion order.\<close>

definition columns :: "dataframe \<Rightarrow> string list" where
  "columns df = [''timeSpent'', ''scrollCount'', ''scrollDepth'', ''clickCount'',
     ''tabSwitches'', ''videoWatchTime'']"

text \<open>Elementwise operations on columns (pandas \<^verbatim>\<open>Series\<close> over the same index).\<close>

definition gt_float :: "float64 list \<Rightarrow> real \<Rightarrow> bool list" where
  "gt_float xs c = map (\<lambda>x. c < x) xs"

definition gt_int :: "int list \<Rightarrow> int \<Rightarrow> bool list" where
  "gt_int xs c = map (\<lambda>x. c < x) xs"

definition lt_int :: "int list \<Rightarrow> int \<Rightarrow> bool list" where
  "lt_int xs c = map (\<lambda>x. x < c) xs"

text \<open>A boolean column times a float: \<^verbatim>\<open>True\<close> counts as 1.0, \<^verbatim>\<open>False\<close> as 0.0.\<close>

definition mul_bool :: "bool list \<Rightarrow> float64 \<Rightarrow> float64 list" where
  "mul_bool bs c = map (\<lambda>b. fmul (of_bool b) c) bs"

definition add_series :: "float64 list \<Rightarrow> float64 list \<Rightarrow> float64 list" where
  "add_series xs ys = map (\<lambda>(x, y). fadd x y) (zip xs ys)"

definition astype_int :: "bool list \<Rightarrow> int list" where
  "astype_int bs = map (\<lambda>b. if b then 1 else 0) bs"

text \<open>
  The local \<^verbatim>\<open>distraction_score\<close> of \<^verbatim>\<open>generate_synthetic_data\<close>. A decimal literal
  of the source denotes the nearest double; the sum associates to the left.
\<close>

definition distraction_score :: "dataframe \<Rightarrow> float64 list" where
  "distraction_score df =
     add_series (add_series (add_series (add_series (add_series
       (mul_bool (gt_float (timeSpent df) 600) (fl (3 / 10)))
       (mul_bool (gt_int (scrollCount df) 50) (fl (2 / 10))))
       (mul_bool (gt_float (scrollDepth df) (fl (8 / 10))) (fl (15 / 100))))
       (mul_bool (lt_int (clickCount df) 2) (fl (1 / 10))))
       (mul_bool (gt_int (tabSwitches df) 5) (fl (15 / 100))))
       (mul_bool (gt_float (videoWatchTime df) 300) (fl (1 / 10)))"

text \<open>Sequencing of calls that may raise and that advance the generator.\<close>

definition and_then ::
  "(exc + 'a) \<times> 'g \<Rightarrow> ('a \<Rightarrow> 'g \<Rightarrow> (exc + 'b) \<times> 'g) \<Rightarrow> (exc + 'b) \<times> 'g" where
  "and_then r k = (case r of (Inl e, g) \<Rightarrow> (Inl e, g) | (Inr x, g) \<Rightarrow> k x g)"

text \<open>
  \<^verbatim>\<open>generate_synthetic_data(n_samples=1000)\<close>. The argument is \<open>None\<close> when the caller
  passes no sample count; \<open>g0\<close> is the state of the global generator at the call.
\<close>

definition generate_synthetic_data ::
  "'g np_random \<Rightarrow> int option \<Rightarrow> 'g \<Rightarrow> (exc + dataframe \<times> int list) \<times> 'g" where
  "generate_synthetic_data rnd n_arg g0 =
     (let n_samples = (case n_arg of None \<Rightarrow> 1000 | Some n \<Rightarrow> n);
          g1 = seed rnd 42
      in and_then (sample rnd (exponential rnd 300) n_samples g1) (\<lambda>c1 g2.
         and_then (sample rnd (negative_binomial rnd 5 (fl (5 / 10))) n_samples g2) (\<lambda>c2 g3.
         and_then (sample rnd (beta rnd 2 2) n_samples g3) (\<lambda>c3 g4.
         and_then (sample rnd (negative_binomial rnd 3 (fl (6 / 10))) n_samples g4) (\<lambda>c4 g5.
         and_then (sample rnd (poisson rnd 2) n_samples g5) (\<lambda>c5 g6.
         and_then (sample rnd (exponential rnd 120) n_samples g6) (\<lambda>c6 g7.
           let df = \<lparr>timeSpent = c1, scrollCount = c2, scrollDepth = c3, clickCount = c4,
                      tabSwitches = c5, videoWatchTime = c6\<rparr>;
               y = astype_int (gt_float (distraction_score df) (fl (4 / 10)))
           in (Inr (df, y), g7))))))))"

text \<open>The six indicator conditions of row \<open>i\<close>, as the score expression evaluates them.\<close>

definition indicators :: "dataframe \<Rightarrow> nat \<Rightarrow> bool list" where
  "indicators df i =
     [600 < timeSpent df ! i, 50 < scrollCount df ! i, fl (8 / 10) < scrollDepth df ! i,
      clickCount df ! i < 2, 5 < tabSwitches df ! i, 300 < videoWatchTime df ! i]"

text \<open>The score of one row as a function of its indicator values.\<close>

definition contribution :: "bool \<Rightarrow> float64 \<Rightarrow> float64" where
  "contribution b w = (if b then w else 0)"

definition row_score :: "bool list \<Rightarrow> float64" where
  "row_score bs =
     fadd (fadd (fadd (fadd (fadd
       (contribution (bs ! 0) (fl (3 / 10)))
       (contribution (bs ! 1) (fl (2 / 10))))
       (contribution (bs ! 2) (fl (15 / 100))))
       (contribution (bs ! 3) (fl (1 / 10))))
       (contribution (bs ! 4) (fl (15 / 100))))
       (contribution (bs ! 5) (fl (1 / 10)))"

section \<open>Text output\<close>

text \<open>\<^verbatim>\<open>str\<close> of an integer: its decimal digits.\<close>

definition digit_char :: "nat \<Rightarrow> char" where
  "digit_char d = ''0123456789abcdef'' ! d"

fun str_nat :: "nat \<Rightarrow> string" where
  "str_nat n = (if n < 10 then [digit_char n] else str_nat (n div 10) @ [digit_char (n mod 10)])"

declare str_nat.simps [simp del]

definition str_int :: "int \<Rightarrow> string" where
  "str_int i = (if i < 0 then CHR ''-'' # str_nat (nat (- i)) else str_nat (nat i))"

text \<open>
  The values the script hands to \<^verbatim>\<open>json.dump\<close>. An object keeps its keys in insertion
  order, as a Python dictionary does.
\<close>

datatype json = JInt int | JFloat float64 | JString string | JArray "json list"
  | JObject "(string \<times> json) list"

text \<open>
  \<^verbatim>\<open>json.dumps(obj, indent=2)\<close>: string escapes of the default \<^verbatim>\<open>ensure_ascii\<close> encoder,
  items separated by a comma and a line break, keys by a colon and a space. The text of
  a float is \<^verbatim>\<open>float.__repr__\<close>, passed as \<open>fr\<close>.
\<close>

definition json_escape :: "char \<Rightarrow> string" where
  "json_escape c =
     (if c = CHR 0x22 then [CHR 0x5C, CHR 0x22]
      else if c = CHR 0x5C then [CHR 0x5C, CHR 0x5C]
      else if c = CHR 0x0A then [CHR 0x5C, CHR ''n'']
      else if c = CHR 0x0D then [CHR 0x5C, CHR ''r'']
      else if c = CHR 0x09 then [CHR 0x5C, CHR ''t'']
      else if c = CHR 0x08 then [CHR 0x5C, CHR ''b'']
      else if c = CHR 0x0C then [CHR 0x5C, CHR ''f'']
      else if of_char c < (32 :: nat) \<or> (126 :: nat) < of_char c
        then [CHR 0x5C, CHR ''u'', CHR ''0'', CHR ''0'',
              digit_char (of_char c div 16), digit_char (of_char c mod 16)]
      else [c])"

definition json_string :: "string \<Rightarrow> string" where
  "json_string s = [CHR 0x22] @ concat (map json_escape s) @ [CHR 0x22]"

definition newline_indent :: "nat \<Rightarrow> string" where
  "newline_indent lvl = CHR 0x0A # replicate (2 * lvl) CHR '' ''"

fun join :: "string \<Rightarrow> string list \<Rightarrow> string" where
  "join sep [] = []"
| "join sep [x] = x"
| "join sep (x # y # ys) = x @ sep @ join sep (y # ys)"

fun json_text :: "(float64 \<Rightarrow> string) \<Rightarrow> nat \<Rightarrow> json \<Rightarrow> string" where
  "json_text fr lvl (JInt i) = str_int i"
| "json_text fr lvl (JFloat x) = fr x"
| "json_text fr lvl (JString s) = json_string s"
| "json_text fr lvl (JArray vs) =
     (if vs = [] then ''[]''
      else ''['' @ newline_indent (lvl + 1)
        @ join ('','' @ newline_indent (lvl + 1)) (map (json_text fr (lvl + 1)) vs)
        @ newline_indent lvl @ '']'')"
| "json_text fr lvl (JObject kvs) =
     (if kvs = [] then ''{}''
      else ''{'' @ newline_indent (lvl + 1)
        @ join ('','' @ newline_indent (lvl + 1))
            (map (\<lambda>(k, v). json_string k @ '': '' @ json_text fr (lvl + 1) v) kvs)
        @ newline_indent lvl @ ''}'')"

section \<open>The libraries and the operating system\<close>

text \<open>
  The script calls scikit-learn and skl2onnx, whose code is not part of the repository.
  Their functions are parameters of the model. A call that can raise returns a sum, with
  the exception on the left. \<open>'m\<close> is the type of a fitted forest, \<open>'t\<close> of one of its
  trees, \<open>'o\<close> of a converted model. The splitter and the classifier receive their
  \<^verbatim>\<open>random_state\<close> as an argument: given an integer, scikit-learn draws from a private
  generator made from it and does not touch the global numpy generator. The last argument
  of \<open>convert_sklearn\<close> is the name of the ONNX graph; a caller that passes no
  \<^verbatim>\<open>name\<close>, as the script does, gets a fresh \<^verbatim>\<open>uuid4\<close>.
\<close>

record rf_params =
  n_estimators :: nat
  max_depth :: nat
  min_samples_split :: nat
  random_state :: nat

record ('m, 't) sklearn =
  train_test_split ::
    "dataframe \<Rightarrow> int list \<Rightarrow> float64 \<Rightarrow> nat \<Rightarrow> exc + dataframe \<times> dataframe \<times> int list \<times> int list"
  fit :: "rf_params \<Rightarrow> dataframe \<Rightarrow> int list \<Rightarrow> exc + 'm"
  predict :: "'m \<Rightarrow> dataframe \<Rightarrow> exc + int list"
  feature_importances :: "'m \<Rightarrow> float64 list"
  estimators :: "'m \<Rightarrow> 't list"
  accuracy_score :: "int list \<Rightarrow> int list \<Rightarrow> exc + float64"
  classification_report :: "int list \<Rightarrow> int list \<Rightarrow> exc + string"

record ('m, 'o) skl2onnx =
  convert_sklearn :: "'m \<Rightarrow> (string \<times> nat) list \<Rightarrow> nat \<Rightarrow> string \<Rightarrow> exc + 'o"
  SerializeToString :: "'o \<Rightarrow> exc + string"

text \<open>
  What the interpreter and the operating system decide: whether importing a module,
  creating a directory or opening a file for writing raises, and how a float prints
  (\<^verbatim>\<open>format(x, '.4f')\<close> and \<^verbatim>\<open>repr(x)\<close>).
\<close>

record os_env =
  import_error :: "string \<Rightarrow> exc option"
  makedirs_error :: "string \<Rightarrow> exc option"
  open_error :: "string \<Rightarrow> exc option"
  format_4f :: "float64 \<Rightarrow> string"
  float_repr :: "float64 \<Rightarrow> string"

record ('g, 'm, 't, 'o) env =
  np :: "'g np_random"
  sk :: "('m, 't) sklearn"
  onnx :: "('m, 'o) skl2onnx"
  os :: os_env

text \<open>
  The state a run changes: the global numpy generator, the directories and files of the
  working directory (a file is its content), the texts printed, one per \<^verbatim>\<open>print\<close> call,
  and the random identifiers the operating system will hand out next (\<open>entropy w i\<close> is
  the \<open>i\<close>-th \<^verbatim>\<open>uuid4().hex\<close> from now on).
\<close>

record 'g world =
  rng :: 'g
  dirs :: "string set"
  files :: "string \<rightharpoonup> string"
  stdout :: "string list"
  entropy :: "nat \<Rightarrow> string"

definition print :: "string \<Rightarrow> 'g world \<Rightarrow> 'g world" where
  "print s w = w\<lparr>stdout := stdout w @ [s]\<rparr>"

text \<open>\<^verbatim>\<open>uuid4().hex\<close>: the next identifier of the operating system's random source.\<close>

definition uuid4 :: "'g world \<Rightarrow> string \<times> 'g world" where
  "uuid4 w = (entropy w 0, w\<lparr>entropy := (\<lambda>i. entropy w (Suc i))\<rparr>)"

text \<open>\<^verbatim>\<open>os.makedirs(path, exist_ok=True)\<close>.\<close>

definition makedirs :: "os_env \<Rightarrow> string \<Rightarrow> 'g world \<Rightarrow> (exc + unit) \<times> 'g world" where
  "makedirs sys path w =
     (case makedirs_error sys path of
        Some e \<Rightarrow> (Inl e, w)
      | None \<Rightarrow> (Inr (), w\<lparr>dirs := insert path (dirs w)\<rparr>))"

text \<open>\<^verbatim>\<open>open(path, 'w')\<close> creates the file or truncates it; writing then sets its content.\<close>

definition open_w :: "os_env \<Rightarrow> string \<Rightarrow> 'g world \<Rightarrow> (exc + unit) \<times> 'g world" where
  "open_w sys path w =
     (case open_error sys path of
        Some e \<Rightarrow> (Inl e, w)
      | None \<Rightarrow> (Inr (), w\<lparr>files := (files w)(path \<mapsto> [])\<rparr>))"

definition write_file :: "string \<Rightarrow> string \<Rightarrow> 'g world \<Rightarrow> 'g world" where
  "write_file path s w = w\<lparr>files := (files w)(path \<mapsto> s)\<rparr>"

section \<open>Training and export\<close>

text \<open>\<^verbatim>\<open>d[k] = v\<close> on a dictionary kept in insertion order.\<close>

definition dict_set :: "(string \<times> 'v) list \<Rightarrow> string \<Rightarrow> 'v \<Rightarrow> (string \<times> 'v) list" where
  "dict_set d k v =
     (if k \<in> set (map fst d) then map (\<lambda>(k', v'). if k' = k then (k', v) else (k', v')) d
      else d @ [(k, v)])"

text \<open>
  The loop over \<^verbatim>\<open>enumerate(features)\<close>: reading \<^verbatim>\<open>feature_importance[i]\<close> raises
  \<^verbatim>\<open>IndexError\<close> past the end of the array; each round stores the importance under the
  feature name and prints it.
\<close>

fun importance_loop ::
  "(float64 \<Rightarrow> string) \<Rightarrow> float64 list \<Rightarrow> (nat \<times> string) list \<Rightarrow> (string \<times> float64) list \<Rightarrow>
   'g world \<Rightarrow> (exc + (string \<times> float64) list) \<times> 'g world" where
  "importance_loop fmt fi [] d w = (Inr d, w)"
| "importance_loop fmt fi ((i, feature) # rest) d w =
     (if i < length fi then
        let importance = fi ! i;
            d' = dict_set d feature importance;
            w' = print (feature @ '': '' @ fmt importance) w
        in importance_loop fmt fi rest d' w'
      else (Inl (Exc IndexError (''index '' @ str_nat i @ '' is out of bounds for axis 0 with size ''
              @ str_nat (length fi))), w))"

text \<open>The entry written for tree \<open>i\<close>; the tree itself is not used.\<close>

definition tree_data :: "string list \<Rightarrow> nat \<Rightarrow> json" where
  "tree_data features i =
     JObject [(''treeIndex'', JInt (int i)), (''feature_names'', JArray (map JString features))]"

definition shape_text :: "dataframe \<Rightarrow> string" where
  "shape_text df =
     ''('' @ str_nat (length (timeSpent df)) @ '', '' @ str_nat (length (columns df)) @ '')''"

definition count_eq :: "int list \<Rightarrow> int \<Rightarrow> nat" where
  "count_eq y v = length (filter (\<lambda>x. x = v) y)"

text \<open>The call \<^verbatim>\<open>generate_synthetic_data(n_samples=2000)\<close> on the global generator.\<close>

definition generate_in ::
  "'g np_random \<Rightarrow> int option \<Rightarrow> 'g world \<Rightarrow> (exc + dataframe \<times> int list) \<times> 'g world" where
  "generate_in r n_arg w =
     (case generate_synthetic_data r n_arg (rng w) of (res, g) \<Rightarrow> (res, w\<lparr>rng := g\<rparr>))"

definition train_and_export_model ::
  "('g, 'm, 't, 'o) env \<Rightarrow> 'g world \<Rightarrow> (exc + unit) \<times> 'g world" where
  "train_and_export_model env w0 =
     (let w1 = print ''Generating synthetic training data...'' w0 in
      and_then (generate_in (np env) (Some 2000) w1) (\<lambda>(X, y) w2.
      and_then (train_test_split (sk env) X y (fl (2 / 10)) 42, w2)
        (\<lambda>(X_train, X_test, y_train, y_test) w3.
      let w4 = print (''Training data shape: '' @ shape_text X_train) w3;
          w5 = print (''Class distribution: Focused='' @ str_nat (count_eq y 0)
                 @ '', Distracted='' @ str_nat (count_eq y 1)) w4;
          w6 = print ''Training Random Forest model...'' w5
      in
      and_then (fit (sk env) \<lparr>n_estimators = 100, max_depth = 10, min_samples_split = 5,
                  random_state = 42\<rparr> X_train y_train, w6) (\<lambda>model w7.
      and_then (predict (sk env) model X_test, w7) (\<lambda>y_pred w8.
      and_then (accuracy_score (sk env) y_test y_pred, w8) (\<lambda>accuracy w9.
      let w10 = print (''Model Accuracy: '' @ format_4f (os env) accuracy) w9;
          w11 = print (CHR 0x0A # ''Classification Report:'') w10
      in
      and_then (classification_report (sk env) y_test y_pred, w11) (\<lambda>report w12.
      let w13 = print report w12;
          feature_importance = feature_importances (sk env) model;
          features = columns X;
          w14 = print (CHR 0x0A # ''Feature Importance:'') w13
      in
      and_then (importance_loop (format_4f (os env)) feature_importance
                  (enumerate 0 features) [] w14) (\<lambda>importance_dict w15.
      and_then (open_w (os env) ''model_data/feature_importance.json'' w15) (\<lambda>_ w16.
      let w17 = write_file ''model_data/feature_importance.json''
                  (json_text (float_repr (os env)) 0
                     (JObject (map (\<lambda>(k, v). (k, JFloat v)) importance_dict))) w16;
          w18 = print (CHR 0x0A # ''Exporting model to ONNX format...'') w17;
          initial_type = [(''float_input'', length features)];
          (graph_name, w18a) = uuid4 w18
      in
      and_then (convert_sklearn (onnx env) model initial_type 12 graph_name, w18a)
        (\<lambda>onnx_model w19.
      let output_path = ''onnx/random_forest_model.onnx'' in
      and_then (open_w (os env) output_path w19) (\<lambda>_ w20.
      and_then (SerializeToString (onnx env) onnx_model, w20) (\<lambda>bytes w21.
      let w22 = write_file output_path bytes w21;
          w23 = print (''ONNX model saved to '' @ output_path) w22;
          w24 = print (CHR 0x0A # ''Extracting decision trees for JavaScript implementation...'') w23;
          trees_data = map (\<lambda>(i, tree). tree_data features i)
                         (enumerate 0 (take 5 (estimators (sk env) model)))
      in
      and_then (open_w (os env) ''model_data/trees_data.json'' w24) (\<lambda>_ w25.
      let w26 = write_file ''model_data/trees_data.json''
                  (json_text (float_repr (os env)) 0 (JArray trees_data)) w25;
          w27 = print ''Model training and export completed successfully!'' w26
      in (Inr (), w27))))))))))))))"

section \<open>The script\<close>

text \<open>The modules the script imports at its top, in order.\<close>

definition imported_modules :: "string list" where
  "imported_modules = [''numpy'', ''pandas'', ''sklearn.ensemble'', ''sklearn.model_selection'',
     ''sklearn.metrics'', ''skl2onnx'', ''skl2onnx.common.data_types'', ''os'', ''json'']"

fun first_error :: "(string \<Rightarrow> exc option) \<Rightarrow> string list \<Rightarrow> exc option" where
  "first_error f [] = None"
| "first_error f (x # xs) = (case f x of Some e \<Rightarrow> Some e | None \<Rightarrow> first_error f xs)"

text \<open>
  The \<^verbatim>\<open>__main__\<close> block: the banner, then the run inside \<^verbatim>\<open>try\<close>. The handler
  \<^verbatim>\<open>except Exception as e\<close> prints the message and the installation hint and lets the
  script end normally; an exception outside the \<^verbatim>\<open>Exception\<close> hierarchy passes through.
\<close>

definition main :: "('g, 'm, 't, 'o) env \<Rightarrow> 'g world \<Rightarrow> (exc + unit) \<times> 'g world" where
  "main env w0 =
     (let w1 = print ''Focus Nudge - Random Forest Model Training'' w0;
          w2 = print ''=========================================='' w1
      in case train_and_export_model env w2 of
           (Inr u, w3) \<Rightarrow>
             (Inr (),
              print ''3. For production, train on real user behavior data''
               (print ''2. Update the JavaScript implementation with the extracted tree data''
                 (print ''1. Use the ONNX model with onnxruntime-web in your extension''
                   (print (CHR 0x0A # ''Next steps:'') w3))))
         | (Inl e, w3) \<Rightarrow>
             if is_Exception e then
               (Inr (),
                print ''pip install numpy pandas scikit-learn skl2onnx''
                 (print (CHR 0x0A # ''To run this script, you need the following packages:'')
                   (print (''Error: '' @ str_exc e) w3)))
             else (Inl e, w3))"

text \<open>
  The whole script, top to bottom: the imports, the two \<^verbatim>\<open>os.makedirs\<close> calls, then the
  \<^verbatim>\<open>__main__\<close> block. A result \<open>Inl e\<close> is an exception nothing caught: the interpreter
  prints a traceback to the error stream and exits with a nonzero status.
\<close>

definition script :: "('g, 'm, 't, 'o) env \<Rightarrow> 'g world \<Rightarrow> (exc + unit) \<times> 'g world" where
  "script env w =
     (case first_error (import_error (os env)) imported_modules of
        Some e \<Rightarrow> (Inl e, w)
      | None \<Rightarrow>
          and_then (makedirs (os env) ''onnx'' w) (\<lambda>_ w1.
          and_then (makedirs (os env) ''model_data'' w1) (\<lambda>_ w2.
          main env w2)))"

section \<open>Auxiliary notions\<close>

text \<open>All six columns of a table have \<open>n\<close> entries.\<close>

definition n_rows :: "dataframe \<Rightarrow> nat \<Rightarrow> bool" where
  "n_rows df n \<longleftrightarrow>
     length (timeSpent df) = n \<and> length (scrollCount df) = n \<and> length (scrollDepth df) = n \<and>
     length (clickCount df) = n \<and> length (tabSwitches df) = n \<and> length (videoWatchTime df) = n"

text \<open>The number of samples a call returned, if it returned.\<close>

definition sample_count :: "(exc + dataframe \<times> int list) \<times> 'g \<Rightarrow> nat option" where
  "sample_count r = (case r of (Inr (df, y), g) \<Rightarrow> Some (length y) | (Inl e, g) \<Rightarrow> None)"

text \<open>The score of a row with the six indicator values as arguments.\<close>

definition rs6 :: "bool \<Rightarrow> bool \<Rightarrow> bool \<Rightarrow> bool \<Rightarrow> bool \<Rightarrow> bool \<Rightarrow> float64" where
  "rs6 b1 b2 b3 b4 b5 b6 = row_score [b1, b2, b3, b4, b5, b6]"

text \<open>
  Two states that differ at most in the random identifiers still to come; a state that
  a later one extends (more printed, the importance file untouched); and two states
  that hold the same importance file and have printed the same, at least up to the
  announcement of the ONNX export.
\<close>

definition agree :: "'g world \<Rightarrow> 'g world \<Rightarrow> bool" where
  "agree w1 w2 \<longleftrightarrow>
     rng w1 = rng w2 \<and> dirs w1 = dirs w2 \<and> files w1 = files w2 \<and> stdout w1 = stdout w2"

definition extends :: "'g world \<Rightarrow> 'g world \<Rightarrow> bool" where
  "extends w w' \<longleftrightarrow>
     (\<exists>more. stdout w' = stdout w @ more) \<and>
     files w' ''model_data/feature_importance.json'' = files w ''model_data/feature_importance.json''"

definition same_until_export :: "'g world \<Rightarrow> 'g world \<Rightarrow> bool" where
  "same_until_export w1 w2 \<longleftrightarrow>
     files w1 ''model_data/feature_importance.json'' =
       files w2 ''model_data/feature_importance.json'' \<and>
     (stdout w1 = stdout w2 \<or>
      (\<exists>before after1 after2.
         stdout w1 = before @ [CHR 0x0A # ''Exporting model to ONNX format...''] @ after1 \<and>
         stdout w2 = before @ [CHR 0x0A # ''Exporting model to ONNX format...''] @ after2))"

section \<open>Concrete inputs\<close>

text \<open>
  A small generator for concrete runs: the state counts the draws made, and the value
  drawn depends on that count modulo 3.
\<close>

definition pick3 :: "nat \<Rightarrow> 'a \<Rightarrow> 'a \<Rightarrow> 'a \<Rightarrow> 'a" where
  "pick3 g a b c = (if g mod 3 = 0 then a else if g mod 3 = 1 then b else c)"

definition demo_random :: "nat np_random" where
  "demo_random =
     \<lparr>seed = (\<lambda>s. 0),
      exponential = (\<lambda>scale g. (pick3 g 0 (4 * scale) (if scale = 300 then 700 else 0), g + 1)),
      negative_binomial = (\<lambda>k p g.
        (pick3 g k (if k = 5 then 100 else 0) (if k = 5 then 5 else 0), g + 1)),
      beta = (\<lambda>a b g. (pick3 g (1 / 2) (7 / 8) (1 / 2), g + 1)),
      poisson = (\<lambda>lam g. (pick3 g 2 10 2, g + 1)),
      alloc_error = (\<lambda>n. None)\<rparr>"

text \<open>The table a run of \<open>demo_random\<close> with three samples produces.\<close>

definition demo_frame :: dataframe where
  "demo_frame =
     \<lparr>timeSpent = [0, 1200, 700], scrollCount = [5, 100, 5], scrollDepth = [1 / 2, 7 / 8, 1 / 2],
      clickCount = [3, 0, 0], tabSwitches = [2, 10, 2], videoWatchTime = [0, 480, 0]\<rparr>"

text \<open>
  Stand-ins for the libraries in concrete runs: the forest is represented by its number
  of trees, the split returns the whole table on both sides.
\<close>

definition demo_sklearn :: "(nat, unit) sklearn" where
  "demo_sklearn =
     \<lparr>train_test_split = (\<lambda>X y test_size state. Inr (X, X, y, y)),
      fit = (\<lambda>p X y. Inr (n_estimators p)),
      predict = (\<lambda>m X. Inr (map (\<lambda>x. 0) (timeSpent X))),
      feature_importances = (\<lambda>m. [1 / 2, 0, 1 / 4, 0, 1 / 4, 0]),
      estimators = (\<lambda>m. replicate m ()),
      accuracy_score = (\<lambda>a b. Inr 1),
      classification_report = (\<lambda>a b. Inr ''report'')\<rparr>"

definition demo_onnx :: "(nat, string) skl2onnx" where
  "demo_onnx =
     \<lparr>convert_sklearn = (\<lambda>m initial_types target_opset name. Inr (str_nat m @ name)),
      SerializeToString = (\<lambda>m. Inr (''onnx'' @ m))\<rparr>"

definition demo_os :: os_env where
  "demo_os =
     \<lparr>import_error = (\<lambda>m. None), makedirs_error = (\<lambda>p. None), open_error = (\<lambda>p. None),
      format_4f = (\<lambda>x. ''0.0000''), float_repr = (\<lambda>x. ''0.0'')\<rparr>"

definition demo_env :: "(nat, nat, unit, string) env" where
  "demo_env = \<lparr>np = demo_random, sk = demo_sklearn, onnx = demo_onnx, os = demo_os\<rparr>"

definition demo_world :: "nat world" where
  "demo_world = \<lparr>rng = 7, dirs = {}, files = Map.empty, stdout = [], entropy = (\<lambda>i. ''0f'')\<rparr>"

text \<open>The same installation without the package \<^verbatim>\<open>skl2onnx\<close>.\<close>

definition no_skl2onnx :: "(nat, nat, unit, string) env" where
  "no_skl2onnx =
     demo_env\<lparr>os := demo_os\<lparr>import_error :=
       (\<lambda>m. if m = ''skl2onnx'' then Some (Exc ImportError ''No module named skl2onnx'')
            else None)\<rparr>\<rparr>"


text \<open>The hyperparameters of the classifier.\<close>

definition forest_params :: rf_params where
  "forest_params = \<lparr>n_estimators = 100, max_depth = 10, min_samples_split = 5, random_state = 42\<rparr>"

section \<open>The rounding\<close>

text \<open>
  \<open>ilog2\<close> finds the binade of a positive number, \<open>rne\<close> is within one half of its
  argument, and so \<open>fl x\<close> is within half a unit in the last place of \<open>x\<close>.
\<close>

lemma pow2_powi: "pow2 k = 2 powi k"
  by (simp add: pow2_def power_int_def inverse_eq_divide power_one_over)

lemma pow2_pos: "0 < pow2 k"
  by (simp add: pow2_powi)

lemma pow2_add1: "pow2 (1 + k) = 2 * pow2 k"
  by (simp add: pow2_powi power_int_add)

lemma pow2_sub1: "pow2 (k - 1) = pow2 k / 2"
  using pow2_add1 [of "k - 1"] by simp

lemma ilog2_up_bounds:
  "1 \<le> x \<Longrightarrow> pow2 (ilog2_up x) \<le> x \<and> x < pow2 (ilog2_up x + 1)"
proof (induction x rule: ilog2_up.induct)
  case (1 x)
  show ?case
  proof (cases "2 \<le> x")
    case True
    then have "1 \<le> x / 2" by simp
    from "1.IH" [OF True this] True show ?thesis
      by (subst (1 2) ilog2_up.simps) (simp add: pow2_powi power_int_add)
  next
    case False
    with "1.prems" show ?thesis
      by (subst (1 2) ilog2_up.simps) (simp add: pow2_def)
  qed
qed

lemma ilog2_down_bounds:
  "0 < x \<Longrightarrow> x < 1 \<Longrightarrow> pow2 (ilog2_down x) \<le> x \<and> x < pow2 (ilog2_down x + 1)"
proof (induction x rule: ilog2_down.induct)
  case (1 x)
  have step: "ilog2_down x = ilog2_down (2 * x) - 1"
    using "1.prems" by (subst ilog2_down.simps) simp
  show ?case
  proof (cases "2 * x < 1")
    case True
    with "1.IH" "1.prems" have "pow2 (ilog2_down (2 * x)) \<le> 2 * x \<and> 2 * x < pow2 (ilog2_down (2 * x) + 1)"
      by simp
    then show ?thesis
      unfolding step by (simp add: pow2_powi power_int_add power_int_diff)
  next
    case False
    then have "ilog2_down (2 * x) = 0"
      by (subst ilog2_down.simps) simp
    with False "1.prems" show ?thesis
      unfolding step by (simp add: pow2_def)
  qed
qed

lemma ilog2_bounds:
  assumes "0 < x"
  shows "pow2 (ilog2 x) \<le> x \<and> x < pow2 (ilog2 x + 1)"
  using assms ilog2_up_bounds [of x] ilog2_down_bounds [of x]
  by (cases "1 \<le> x") (simp_all add: ilog2_def)

lemma rne_error: "\<bar>of_int (rne x) - x\<bar> \<le> 1 / 2"
  unfolding rne_def Let_def by (auto simp: abs_le_iff)

lemma fl_error:
  assumes "x \<noteq> 0"
  shows "\<bar>fl x - x\<bar> \<le> pow2 (max (ilog2 \<bar>x\<bar>) (- 1022) - 53)"
proof -
  define u where "u = pow2 (max (ilog2 \<bar>x\<bar>) (- 1022) - 52)"
  have u: "0 < u"
    by (simp add: u_def pow2_pos)
  have "fl x - x = (of_int (rne (x / u)) - x / u) * u"
    using assms u by (simp add: fl_def Let_def u_def [symmetric] algebra_simps)
  then have "\<bar>fl x - x\<bar> = \<bar>of_int (rne (x / u)) - x / u\<bar> * u"
    using u by (simp add: abs_mult)
  also have "\<dots> \<le> 1 / 2 * u"
    using rne_error [of "x / u"] u by (intro mult_right_mono) simp_all
  also have "\<dots> = pow2 (max (ilog2 \<bar>x\<bar>) (- 1022) - 53)"
    using pow2_sub1 [of "max (ilog2 \<bar>x\<bar>) (- 1022) - 52"] by (simp add: u_def)
  finally show ?thesis .
qed

text \<open>Evaluation of the rounding on numerals.\<close>

lemmas fl_eval = fl_def ilog2_def ilog2_up.simps ilog2_down.simps pow2_def rne_def Let_def

text \<open>The doubles denoted by the decimal literals of the labelling rule.\<close>

lemma fl_3_10: "fl (3 / 10) = 5404319552844595 / 2^54"
  by (simp add: fl_eval)
lemma fl_2_10: "fl (1 / 5) = 3602879701896397 / 2^54"
  by (simp add: fl_eval)
lemma fl_15_100: "fl (3 / 20) = 5404319552844595 / 2^55"
  by (simp add: fl_eval)
lemma fl_1_10: "fl (1 / 10) = 3602879701896397 / 2^55"
  by (simp add: fl_eval)
lemma fl_4_10: "fl (2 / 5) = 3602879701896397 / 2^53"
  by (simp add: fl_eval)
lemma fl_8_10: "fl (4 / 5) = 3602879701896397 / 2^52"
  by (simp add: fl_eval)
lemma fl_0: "fl 0 = 0"
  by (simp add: fl_def)

lemmas literals = fl_3_10 fl_2_10 fl_15_100 fl_1_10 fl_4_10 fl_8_10

lemma fmul_of_bool:
  "fmul (of_bool b) (fl (3 / 10)) = contribution b (fl (3 / 10))"
  "fmul (of_bool b) (fl (1 / 5)) = contribution b (fl (1 / 5))"
  "fmul (of_bool b) (fl (3 / 20)) = contribution b (fl (3 / 20))"
  "fmul (of_bool b) (fl (1 / 10)) = contribution b (fl (1 / 10))"
  by (cases b; simp add: fmul_def contribution_def fl_eval)+

lemma rs6_bounds: "0 \<le> rs6 b1 b2 b3 b4 b5 b6 \<and> rs6 b1 b2 b3 b4 b5 b6 \<le> 1"
  unfolding rs6_def row_score_def contribution_def fadd_def
  by (cases b1; cases b2; cases b3; cases b4; cases b5; cases b6; simp add: literals; simp add: fl_eval)

section \<open>The generated table and its labels\<close>

lemma length_draws: "draws f n g = (xs, g') \<Longrightarrow> length xs = n"
  by (induction n arbitrary: g xs g') (auto split: prod.splits)

lemma sample_Inr:
  "sample rnd f n g = (Inr xs, g') \<Longrightarrow> 0 \<le> n \<and> length xs = nat n"
  by (auto simp: sample_def split: if_splits prod.splits option.splits dest: length_draws)

lemma generate_Inr:
  assumes "generate_synthetic_data rnd n_arg g0 = (Inr (df, y), g')"
  shows "n_rows df (nat (case n_arg of None \<Rightarrow> 1000 | Some n \<Rightarrow> n))"
    and "y = astype_int (gt_float (distraction_score df) (fl (4 / 10)))"
  using assms
  by (auto simp: generate_synthetic_data_def and_then_def Let_def n_rows_def
      split: prod.splits sum.splits dest!: sample_Inr)

lemma length_distraction_score: "n_rows df n \<Longrightarrow> length (distraction_score df) = n"
  by (simp add: n_rows_def distraction_score_def add_series_def mul_bool_def gt_float_def
      gt_int_def lt_int_def)

lemma distraction_score_nth:
  "n_rows df n \<Longrightarrow> i < n \<Longrightarrow> distraction_score df ! i = row_score (indicators df i)"
  by (simp add: n_rows_def distraction_score_def add_series_def mul_bool_def gt_float_def
      gt_int_def lt_int_def row_score_def indicators_def fmul_of_bool)

lemma label_nth:
  "n_rows df n \<Longrightarrow> i < n \<Longrightarrow>
   astype_int (gt_float (distraction_score df) c) ! i = (if c < row_score (indicators df i) then 1 else 0)"
  by (simp add: astype_int_def gt_float_def length_distraction_score distraction_score_nth)

lemma row_score_all_false: "row_score [False, False, False, False, False, False] = 0"
  by (simp add: row_score_def contribution_def fadd_def fl_0)

lemma row_score_all_true: "row_score [True, True, True, True, True, True] = 1"
  by (simp add: row_score_def contribution_def fadd_def literals) (simp add: fl_eval)

lemma row_score_time_click: "row_score [True, False, False, True, False, False] = fl (4 / 10)"
  by (simp add: row_score_def contribution_def fadd_def literals) (simp add: fl_eval)

lemma row_score_bounds: "0 \<le> row_score (indicators df i) \<and> row_score (indicators df i) \<le> 1"
  using rs6_bounds by (simp add: rs6_def indicators_def)

text \<open>A count within the index width that the machine can allocate.\<close>

lemma generate_total:
  assumes "0 \<le> n" and "n < 2 ^ 63" and "alloc_error rnd n = None"
    and "n = (case n_arg of None \<Rightarrow> 1000 | Some k \<Rightarrow> k)"
  shows "\<exists>df y g'. generate_synthetic_data rnd n_arg g0 = (Inr (df, y), g')"
  using assms
  by (simp add: generate_synthetic_data_def and_then_def Let_def sample_def split: prod.splits)

lemma length_labels:
  assumes "generate_synthetic_data rnd n_arg g0 = (Inr (df, y), g')"
  shows "length y = nat (case n_arg of None \<Rightarrow> 1000 | Some n \<Rightarrow> n)"
  using generate_Inr [OF assms]
  by (simp add: astype_int_def gt_float_def length_distraction_score)

lemma sample_count_generate:
  assumes "0 \<le> n" and "n < 2 ^ 63" and "alloc_error rnd n = None"
    and "n = (case n_arg of None \<Rightarrow> 1000 | Some k \<Rightarrow> k)"
  shows "sample_count (generate_synthetic_data rnd n_arg g0) =
         Some (nat (case n_arg of None \<Rightarrow> 1000 | Some n \<Rightarrow> n))"
proof -
  from generate_total [OF assms, of g0] obtain df y g'
    where run: "generate_synthetic_data rnd n_arg g0 = (Inr (df, y), g')"
    by blast
  then show ?thesis
    by (simp add: sample_count_def length_labels [OF run])
qed

lemma demo_draws:
  "draws f 3 g = (case f g of (x1, g1) \<Rightarrow> case f g1 of (x2, g2) \<Rightarrow> case f g2 of (x3, g3) \<Rightarrow>
     ([x1, x2, x3], g3))"
  by (simp add: eval_nat_numeral split: prod.splits)

lemma demo_sample:
  "alloc_error rnd 3 = None \<Longrightarrow> sample rnd f 3 g = (case f g of (x1, g1) \<Rightarrow> case f g1 of (x2, g2) \<Rightarrow> case f g2 of (x3, g3) \<Rightarrow>
     (Inr [x1, x2, x3], g3))"
  by (simp add: sample_def demo_draws split: prod.splits)

lemma demo_frame_generated:
  "\<exists>y. generate_synthetic_data demo_random (Some 3) g0 = (Inr (demo_frame, y), 18)"
  by (simp add: generate_synthetic_data_def and_then_def Let_def demo_sample
      demo_random_def demo_frame_def pick3_def)

lemma demo_indicators:
  "indicators demo_frame 0 = [False, False, False, False, False, False]"
  "indicators demo_frame 1 = [True, True, True, True, True, True]"
  "indicators demo_frame (Suc 0) = [True, True, True, True, True, True]"
  "indicators demo_frame 2 = [True, False, False, True, False, False]"
  by (simp_all add: indicators_def demo_frame_def fl_8_10)

lemma demo_run:
  "generate_synthetic_data demo_random (Some 3) g0 = (Inr (demo_frame, [0, 1, 0]), 18)"
proof -
  from demo_frame_generated obtain y
    where run: "generate_synthetic_data demo_random (Some 3) g0 = (Inr (demo_frame, y), 18)"
    by blast
  have rows: "n_rows demo_frame 3"
    using generate_Inr(1) [OF run] by simp
  have yeq: "y = astype_int (gt_float (distraction_score demo_frame) (fl (4 / 10)))"
    by (rule generate_Inr(2) [OF run])
  have "length y = 3"
    using length_labels [OF run] by simp
  moreover have "y ! 0 = 0"
  proof -
    have "y ! 0 = (if fl (4 / 10) < row_score (indicators demo_frame 0) then 1 else 0)"
      unfolding yeq by (rule label_nth [OF rows]) simp
    then show ?thesis
      unfolding demo_indicators row_score_all_false by (simp add: literals)
  qed
  moreover have "y ! 1 = 1"
  proof -
    have "y ! 1 = (if fl (4 / 10) < row_score (indicators demo_frame 1) then 1 else 0)"
      unfolding yeq by (rule label_nth [OF rows]) simp
    then show ?thesis
      unfolding demo_indicators row_score_all_true by (simp add: literals)
  qed
  moreover have "y ! 2 = 0"
  proof -
    have "y ! 2 = (if fl (4 / 10) < row_score (indicators demo_frame 2) then 1 else 0)"
      unfolding yeq by (rule label_nth [OF rows]) simp
    then show ?thesis
      unfolding demo_indicators row_score_time_click by simp
  qed
  ultimately have "y = [0, 1, 0]"
    by (auto simp: list_eq_iff_nth_eq less_Suc_eq eval_nat_numeral)
  with run show ?thesis by simp
qed

section \<open>The labelling rule\<close>

text \<open>
  Claim C1. In a table returned by \<^verbatim>\<open>generate_synthetic_data\<close>, a row whose six indicator
  conditions are all false has label 0, and a row whose six indicator conditions are all
  true has distraction score exactly 1.0 and label 1.
\<close>

theorem label_rule_extremes:
  assumes "generate_synthetic_data rnd n_arg g0 = (Inr (df, y), g')" and "i < length y"
  shows "(indicators df i = [False, False, False, False, False, False] \<longrightarrow> y ! i = 0) \<and>
         (indicators df i = [True, True, True, True, True, True] \<longrightarrow>
            distraction_score df ! i = 1 \<and> y ! i = 1)"
proof -
  let ?n = "nat (case n_arg of None \<Rightarrow> 1000 | Some n \<Rightarrow> n)"
  have rows: "n_rows df ?n" and y: "y = astype_int (gt_float (distraction_score df) (fl (4 / 10)))"
    using generate_Inr [OF assms(1)] by simp_all
  have i: "i < ?n"
    using assms(2) length_labels [OF assms(1)] by simp
  have "y ! i = (if fl (4 / 10) < row_score (indicators df i) then 1 else 0)"
    unfolding y by (rule label_nth [OF rows i])
  moreover have "distraction_score df ! i = row_score (indicators df i)"
    by (rule distraction_score_nth [OF rows i])
  moreover have "fl (4 / 10) < 1" "\<not> fl (4 / 10) < 0"
    by (simp_all add: literals)
  ultimately show ?thesis
    by (simp add: row_score_all_false row_score_all_true)
qed

theorem label_rule_extremes_witness:
  "generate_synthetic_data demo_random (Some 3) 0 = (Inr (demo_frame, [0, 1, 0]), 18) \<and>
   indicators demo_frame 0 = [False, False, False, False, False, False] \<and> [0, 1, 0 :: int] ! 0 = 0 \<and>
   indicators demo_frame 1 = [True, True, True, True, True, True] \<and>
   distraction_score demo_frame ! 1 = 1 \<and> [0, 1, 0 :: int] ! 1 = 1"
  using label_rule_extremes [OF demo_run, where i = 0] label_rule_extremes [OF demo_run, where i = 1]
  by (simp add: demo_run demo_indicators)

text \<open>
  Claim C9. The threshold is strict: a row whose distraction score equals the double 0.4
  has label 0. A row in which exactly the \<^verbatim>\<open>timeSpent > 600\<close> and the \<^verbatim>\<open>clickCount < 2\<close>
  indicators hold has the score \<open>0.3 + 0.1\<close>, which rounds to the double 0.4, and so has
  label 0.
\<close>

theorem strict_threshold:
  assumes "generate_synthetic_data rnd n_arg g0 = (Inr (df, y), g')" and "i < length y"
  shows "(distraction_score df ! i = fl (4 / 10) \<longrightarrow> y ! i = 0) \<and>
         (indicators df i = [True, False, False, True, False, False] \<longrightarrow>
            distraction_score df ! i = fl (4 / 10) \<and> y ! i = 0)"
proof -
  let ?n = "nat (case n_arg of None \<Rightarrow> 1000 | Some n \<Rightarrow> n)"
  have rows: "n_rows df ?n" and y: "y = astype_int (gt_float (distraction_score df) (fl (4 / 10)))"
    using generate_Inr [OF assms(1)] by simp_all
  have i: "i < ?n"
    using assms(2) length_labels [OF assms(1)] by simp
  have score: "distraction_score df ! i = row_score (indicators df i)"
    by (rule distraction_score_nth [OF rows i])
  have "y ! i = (if fl (4 / 10) < row_score (indicators df i) then 1 else 0)"
    unfolding y by (rule label_nth [OF rows i])
  then have label: "y ! i = (if fl (4 / 10) < distraction_score df ! i then 1 else 0)"
    by (simp only: score)
  have first: "distraction_score df ! i = fl (4 / 10) \<longrightarrow> y ! i = 0"
    using label by simp
  have "indicators df i = [True, False, False, True, False, False] \<longrightarrow>
          distraction_score df ! i = fl (4 / 10)"
    using score row_score_time_click by auto
  with first show ?thesis
    by blast
qed

theorem strict_threshold_witness:
  "generate_synthetic_data demo_random (Some 3) 0 = (Inr (demo_frame, [0, 1, 0]), 18) \<and>
   indicators demo_frame 2 = [True, False, False, True, False, False] \<and>
   distraction_score demo_frame ! 2 = fl (4 / 10) \<and> [0, 1, 0 :: int] ! 2 = 0"
  using strict_threshold [OF demo_run, where i = 2]
  by (simp add: demo_run demo_indicators)

text \<open>
  Claim C10. The six weights add up, in double arithmetic, to exactly 1.0. In a table
  returned by \<^verbatim>\<open>generate_synthetic_data\<close> the score of every row is the left-to-right sum
  of the contributions of its indicators, each 0 or the full weight; it lies between 0
  and 1, and the label of the row is 0 or 1.
\<close>

theorem score_in_unit_interval:
  assumes "generate_synthetic_data rnd n_arg g0 = (Inr (df, y), g')"
  shows "row_score [True, True, True, True, True, True] = 1 \<and>
         (\<forall>i < length y.
            distraction_score df ! i = row_score (indicators df i) \<and>
            0 \<le> distraction_score df ! i \<and> distraction_score df ! i \<le> 1 \<and>
            (y ! i = 0 \<or> y ! i = 1))"
proof -
  let ?n = "nat (case n_arg of None \<Rightarrow> 1000 | Some n \<Rightarrow> n)"
  have rows: "n_rows df ?n" and y: "y = astype_int (gt_float (distraction_score df) (fl (4 / 10)))"
    using generate_Inr [OF assms] by simp_all
  have len: "length y = ?n"
    by (rule length_labels [OF assms])
  have "distraction_score df ! i = row_score (indicators df i) \<and>
        0 \<le> distraction_score df ! i \<and> distraction_score df ! i \<le> 1 \<and>
        (y ! i = 0 \<or> y ! i = 1)" if "i < length y" for i
  proof -
    from that len have i: "i < ?n"
      by simp
    have score: "distraction_score df ! i = row_score (indicators df i)"
      by (rule distraction_score_nth [OF rows i])
    have "y ! i = (if fl (4 / 10) < row_score (indicators df i) then 1 else 0)"
      unfolding y by (rule label_nth [OF rows i])
    then have "y ! i = 0 \<or> y ! i = 1"
      by simp
    with score row_score_bounds [of df i] show ?thesis
      by simp
  qed
  with row_score_all_true show ?thesis
    by blast
qed

theorem score_in_unit_interval_witness:
  "generate_synthetic_data demo_random (Some 3) 0 = (Inr (demo_frame, [0, 1, 0]), 18) \<and>
   0 \<le> distraction_score demo_frame ! 1 \<and> distraction_score demo_frame ! 1 \<le> 1 \<and>
   distraction_score demo_frame ! 1 = row_score (indicators demo_frame 1)"
  using score_in_unit_interval [OF demo_run, THEN conjunct2, rule_format, of 1]
  by (simp add: demo_run)

section \<open>The sample count\<close>

text \<open>
  Claim C3 as stated fails: called without a sample count, \<^verbatim>\<open>generate_synthetic_data\<close>
  returns 1000 samples, not 2000.
\<close>

theorem default_sample_count_counterexample:
  "sample_count (generate_synthetic_data demo_random None 0) = Some 1000 \<and>
   sample_count (generate_synthetic_data demo_random None 0) \<noteq> Some 2000"
  using sample_count_generate [of 1000 demo_random None 0]
  by (simp add: demo_random_def)

text \<open>
  Claim C3, amended. The default sample count is 1000: called without a sample count,
  \<^verbatim>\<open>generate_synthetic_data\<close> returns 1000 samples, on a machine that can allocate
  arrays of 1000 entries.
\<close>

theorem default_sample_count:
  assumes "alloc_error rnd 1000 = None"
  shows "sample_count (generate_synthetic_data rnd None g0) = Some 1000"
  using sample_count_generate [of 1000 rnd None g0] assms
  by simp

theorem default_sample_count_witness:
  "alloc_error demo_random 1000 = None \<and>
   sample_count (generate_synthetic_data demo_random None 7) = Some 1000"
proof -
  have room: "alloc_error demo_random 1000 = None"
    by (simp add: demo_random_def)
  from room default_sample_count [OF room, of 7] show ?thesis
    by simp
qed

section \<open>The run\<close>

lemma and_then_Inr:
  "and_then r k = (Inr v, w') \<Longrightarrow> \<exists>x w. r = (Inr x, w) \<and> k x w = (Inr v, w')"
  by (auto simp: and_then_def split: prod.splits sum.splits)

lemma files_print [simp]: "files (print s w) = files w"
  by (simp add: print_def)

lemma files_write_file [simp]: "files (write_file path s w) = (files w)(path \<mapsto> s)"
  by (simp add: write_file_def)

lemma dict_set_fresh: "k \<notin> set (map fst d) \<Longrightarrow> dict_set d k v = d @ [(k, v)]"
  by (simp add: dict_set_def)




lemma gen_2000:
  "alloc_error rnd 2000 = None \<Longrightarrow>
   \<exists>X y g. generate_synthetic_data rnd (Some 2000) g0 = (Inr (X, y), g)"
  using generate_total [of 2000 rnd "Some 2000" g0] by simp

lemma demo_succeeds: "\<exists>w'. train_and_export_model demo_env w = (Inr (), w')"
proof -
  obtain X y g where gen: "generate_synthetic_data demo_random (Some 2000) (rng w) = (Inr (X, y), g)"
    using gen_2000 [of demo_random "rng w"] by (auto simp: demo_random_def)
  show ?thesis
    by (simp add: train_and_export_model_def generate_in_def print_def gen and_then_def Let_def
        demo_env_def demo_sklearn_def demo_onnx_def demo_os_def columns_def open_w_def
        write_file_def uuid4_def enumerate_eq_zip)
qed

lemma entropy_print [simp]: "entropy (print s w) = entropy w"
  by (simp add: print_def)

lemma entropy_write_file [simp]: "entropy (write_file path s w) = entropy w"
  by (simp add: write_file_def)

lemma open_w_Inr:
  "open_w sys path w = (Inr u, w') \<Longrightarrow>
   files w' = (files w)(path \<mapsto> []) \<and> entropy w' = entropy w"
  by (auto simp: open_w_def split: option.splits)

lemma generate_in_frame:
  "generate_in r n_arg w = (res, w') \<Longrightarrow> files w' = files w \<and> entropy w' = entropy w"
  by (auto simp: generate_in_def split: prod.splits)

lemma importance_loop_Inr:
  "importance_loop fmt fi (enumerate n fs) d w = (Inr d', w') \<Longrightarrow> distinct (map fst d @ fs) \<Longrightarrow>
   d' = d @ zip fs (drop n fi) \<and> length fs \<le> length fi - n \<and> files w' = files w \<and>
   entropy w' = entropy w"
proof (induction fs arbitrary: n d w)
  case Nil
  then show ?case by simp
next
  case (Cons f fs)
  from Cons.prems(1) have bound: "n < length fi"
    and rest: "importance_loop fmt fi (enumerate (Suc n) fs) (dict_set d f (fi ! n))
                 (print (f @ '': '' @ fmt (fi ! n)) w) = (Inr d', w')"
    by (auto simp: Let_def split: if_splits)
  have fresh: "dict_set d f (fi ! n) = d @ [(f, fi ! n)]"
    using Cons.prems(2) by (intro dict_set_fresh) auto
  have "distinct (map fst (d @ [(f, fi ! n)]) @ fs)"
    using Cons.prems(2) by auto
  from Cons.IH [OF rest [unfolded fresh] this] bound
  show ?case
    by (auto simp: Cons_nth_drop_Suc [symmetric])
qed

lemma importance_loop_features:
  assumes "importance_loop fmt fi (enumerate 0 [''timeSpent'', ''scrollCount'', ''scrollDepth'',
             ''clickCount'', ''tabSwitches'', ''videoWatchTime'']) [] w = (Inr d, w')"
  shows "d = zip [''timeSpent'', ''scrollCount'', ''scrollDepth'', ''clickCount'',
               ''tabSwitches'', ''videoWatchTime''] fi \<and> 6 \<le> length fi \<and> files w' = files w \<and>
         entropy w' = entropy w"
  using importance_loop_Inr [OF assms] by simp

lemma six: "Suc (Suc (Suc (Suc (Suc (Suc 0))))) = 6"
  by simp

lemma run_Inr:
  assumes "train_and_export_model env w = (Inr (), w')"
  shows "\<exists>X_train y_train model onnx_model bytes.
           fit (sk env) forest_params X_train y_train = Inr model \<and>
           convert_sklearn (onnx env) model [(''float_input'', 6)] 12 (entropy w 0) = Inr onnx_model \<and>
           SerializeToString (onnx env) onnx_model = Inr bytes \<and>
           6 \<le> length (feature_importances (sk env) model) \<and>
           files w' = (files w)
             (''model_data/feature_importance.json'' \<mapsto>
                json_text (float_repr (os env)) 0
                  (JObject (zip [''timeSpent'', ''scrollCount'', ''scrollDepth'', ''clickCount'',
                     ''tabSwitches'', ''videoWatchTime'']
                     (map JFloat (feature_importances (sk env) model)))),
              ''onnx/random_forest_model.onnx'' \<mapsto> bytes,
              ''model_data/trees_data.json'' \<mapsto>
                json_text (float_repr (os env)) 0
                  (JArray (map (\<lambda>(i, tree). tree_data [''timeSpent'', ''scrollCount'', ''scrollDepth'',
                     ''clickCount'', ''tabSwitches'', ''videoWatchTime''] i)
                     (enumerate 0 (take 5 (estimators (sk env) model))))))"
  using assms unfolding train_and_export_model_def Let_def forest_params_def columns_def
  apply (clarsimp simp del: json_text.simps enumerate_simps importance_loop.simps
      simp: uuid4_def six
      dest!: and_then_Inr generate_in_frame importance_loop_features open_w_Inr)
  apply (rule exI, rule exI, rule exI, rule conjI, assumption)
  apply (rule exI, rule conjI, assumption)
  apply (rule exI, rule conjI, assumption)
  apply (simp add: zip_map2 del: json_text.simps)
  done








section \<open>The files a run writes\<close>






section \<open>The hyperparameters\<close>

text \<open>
  Claim C6. The classifier is fitted with 100 trees, maximum depth 10, minimum samples to
  split 5 and random state 42, whatever the state the run starts from: a successful run
  has fitted with exactly these values, and a run depends on the fitting routine only
  through its behaviour at these values.
\<close>

theorem fixed_hyperparameters:
  "(train_and_export_model env w = (Inr (), w') \<longrightarrow>
      (\<exists>X_train y_train model.
         fit (sk env) \<lparr>n_estimators = 100, max_depth = 10, min_samples_split = 5,
           random_state = 42\<rparr> X_train y_train = Inr model)) \<and>
   (fit' \<lparr>n_estimators = 100, max_depth = 10, min_samples_split = 5, random_state = 42\<rparr> =
      fit (sk env) \<lparr>n_estimators = 100, max_depth = 10, min_samples_split = 5,
        random_state = 42\<rparr> \<longrightarrow>
    train_and_export_model (env\<lparr>sk := (sk env)\<lparr>fit := fit'\<rparr>\<rparr>) w =
    train_and_export_model env w)"
proof (intro conjI impI)
  assume "train_and_export_model env w = (Inr (), w')"
  from run_Inr [OF this]
  show "\<exists>X_train y_train model.
          fit (sk env) \<lparr>n_estimators = 100, max_depth = 10, min_samples_split = 5,
            random_state = 42\<rparr> X_train y_train = Inr model"
    unfolding forest_params_def by blast
next
  assume "fit' \<lparr>n_estimators = 100, max_depth = 10, min_samples_split = 5, random_state = 42\<rparr> =
          fit (sk env) \<lparr>n_estimators = 100, max_depth = 10, min_samples_split = 5,
            random_state = 42\<rparr>"
  then show "train_and_export_model (env\<lparr>sk := (sk env)\<lparr>fit := fit'\<rparr>\<rparr>) w =
             train_and_export_model env w"
    by (simp add: train_and_export_model_def)
qed

theorem fixed_hyperparameters_witness:
  "\<exists>w'. train_and_export_model demo_env demo_world = (Inr (), w') \<and>
     (\<exists>X_train y_train model.
        fit (sk demo_env) \<lparr>n_estimators = 100, max_depth = 10, min_samples_split = 5,
          random_state = 42\<rparr> X_train y_train = Inr model) \<and>
     train_and_export_model
       (demo_env\<lparr>sk := (sk demo_env)\<lparr>fit :=
          (\<lambda>p. if n_estimators p = 100 then fit (sk demo_env) p
               else (\<lambda>X y. Inl (Exc LibraryError ''not called'')))\<rparr>\<rparr>) demo_world =
     train_and_export_model demo_env demo_world"
proof -
  obtain w' where run: "train_and_export_model demo_env demo_world = (Inr (), w')"
    using demo_succeeds by blast
  from run fixed_hyperparameters [of demo_env demo_world w'
      "\<lambda>p. if n_estimators p = 100 then fit (sk demo_env) p
           else (\<lambda>X y. Inl (Exc LibraryError ''not called''))"]
  show ?thesis
    by simp
qed

section \<open>Failures\<close>

text \<open>
  Claim C8 does not hold for a missing dependency. The imports stand at the top of the
  script, above the \<^verbatim>\<open>try\<close> block: with the package \<^verbatim>\<open>skl2onnx\<close> absent the import raises
  before the handler is in place. The exception leaves the script uncaught, and neither
  the message line nor the installation hint is printed.
\<close>

theorem missing_dependency_uncaught:
  "script no_skl2onnx demo_world = (Inl (Exc ImportError ''No module named skl2onnx''), demo_world)"
  by (simp add: script_def no_skl2onnx_def demo_env_def demo_os_def imported_modules_def)

text \<open>
  What the handler does reach: an exception of the \<^verbatim>\<open>Exception\<close> hierarchy raised inside
  \<^verbatim>\<open>train_and_export_model\<close> is caught, its message and the hint are printed, the script
  ends normally, and the files written before the failure stay as they are.
\<close>

lemma handler_catches:
  assumes "train_and_export_model env
             (print ''=========================================='' 
               (print ''Focus Nudge - Random Forest Model Training'' w)) = (Inl e, w')"
    and "is_Exception e"
  shows "main env w =
           (Inr (), print ''pip install numpy pandas scikit-learn skl2onnx''
                     (print (CHR 0x0A # ''To run this script, you need the following packages:'')
                       (print (''Error: '' @ str_exc e) w')))"
  using assms by (simp add: main_def Let_def)


section \<open>Two runs\<close>

text \<open>
  The steps of a run up to the ONNX export never read the random identifiers, and the
  steps from there on only add to what was printed and leave the importance file alone.
\<close>

lemma agree_print: "agree w1 w2 \<Longrightarrow> agree (print s w1) (print s w2)"
  by (simp add: agree_def print_def)

lemma agree_write_file: "agree w1 w2 \<Longrightarrow> agree (write_file p s w1) (write_file p s w2)"
  by (simp add: agree_def write_file_def)

lemma agree_same: "agree w1 w2 \<Longrightarrow> same_until_export w1 w2"
  by (simp add: agree_def same_until_export_def)

lemma generate_in_agree:
  assumes "dirs w1 = dirs w2" and "files w1 = files w2" and "stdout w1 = stdout w2"
  shows "fst (generate_in r n w1) = fst (generate_in r n w2)"
    and "agree (snd (generate_in r n w1)) (snd (generate_in r n w2))"
proof -
  have "generate_synthetic_data r n (rng w1) = generate_synthetic_data r n (rng w2)"
    by (simp add: generate_synthetic_data_def)
  with assms show "fst (generate_in r n w1) = fst (generate_in r n w2)"
    and "agree (snd (generate_in r n w1)) (snd (generate_in r n w2))"
    by (simp_all add: generate_in_def agree_def split: prod.splits)
qed

lemma open_w_agree:
  assumes "agree w1 w2"
  shows "fst (open_w sys p w1) = fst (open_w sys p w2)"
    and "agree (snd (open_w sys p w1)) (snd (open_w sys p w2))"
  using assms by (simp_all add: open_w_def agree_def split: option.splits)

lemma importance_loop_agree:
  "agree w1 w2 \<Longrightarrow>
   fst (importance_loop fmt fi ps d w1) = fst (importance_loop fmt fi ps d w2) \<and>
   agree (snd (importance_loop fmt fi ps d w1)) (snd (importance_loop fmt fi ps d w2))"
proof (induction ps arbitrary: d w1 w2)
  case Nil
  then show ?case by simp
next
  case (Cons p ps)
  obtain i feature where p: "p = (i, feature)"
    by (cases p)
  show ?case
  proof (cases "i < length fi")
    case True
    from Cons.IH [OF agree_print [OF Cons.prems]] True show ?thesis
      by (simp add: p Let_def)
  next
    case False
    with Cons.prems show ?thesis
      by (simp add: p)
  qed
qed

lemma step_same:
  assumes "fst r1 = fst r2" and "agree (snd r1) (snd r2)"
    and "\<And>x v1 v2. agree v1 v2 \<Longrightarrow> same_until_export (snd (k x v1)) (snd (k x v2))"
  shows "same_until_export (snd (and_then r1 k)) (snd (and_then r2 k))"
proof -
  obtain a v1 where r1: "r1 = (a, v1)"
    by (cases r1)
  with assms(1) obtain v2 where r2: "r2 = (a, v2)"
    by (cases r2) simp
  from assms(2) have v: "agree v1 v2"
    by (simp add: r1 r2)
  show ?thesis
  proof (cases a)
    case (Inl e)
    with v show ?thesis
      by (simp add: r1 r2 and_then_def agree_same)
  next
    case (Inr x)
    with assms(3) [OF v] show ?thesis
      by (simp add: r1 r2 and_then_def)
  qed
qed

lemma tail_same:
  assumes "agree v1 v2"
    and "extends (print (CHR 0x0A # ''Exporting model to ONNX format...'') v1) t1"
    and "extends (print (CHR 0x0A # ''Exporting model to ONNX format...'') v2) t2"
  shows "same_until_export t1 t2"
proof -
  from assms(2) obtain m1 where
      "stdout t1 = stdout v1 @ [CHR 0x0A # ''Exporting model to ONNX format...''] @ m1"
    and f1: "files t1 ''model_data/feature_importance.json'' =
             files v1 ''model_data/feature_importance.json''"
    by (auto simp: extends_def print_def)
  moreover from assms(3) obtain m2 where
      "stdout t2 = stdout v2 @ [CHR 0x0A # ''Exporting model to ONNX format...''] @ m2"
    and f2: "files t2 ''model_data/feature_importance.json'' =
             files v2 ''model_data/feature_importance.json''"
    by (auto simp: extends_def print_def)
  moreover have "stdout v1 = stdout v2" "files v1 = files v2"
    using assms(1) by (simp_all add: agree_def)
  ultimately show ?thesis
    unfolding same_until_export_def by metis
qed

lemma tail_extends:
  "extends (print (CHR 0x0A # ''Exporting model to ONNX format...'') v)
     (snd (case uuid4 (print (CHR 0x0A # ''Exporting model to ONNX format...'') v) of
             (graph_name, w18a) \<Rightarrow>
               and_then (conv graph_name, w18a) (\<lambda>onnx_model w19.
               and_then (open_w sys ''onnx/random_forest_model.onnx'' w19) (\<lambda>_ w20.
               and_then (ser onnx_model, w20) (\<lambda>bytes w21.
               and_then (open_w sys ''model_data/trees_data.json''
                   (print s1 (print s2 (write_file ''onnx/random_forest_model.onnx'' bytes w21))))
                 (\<lambda>_ w25. (Inr (), print s3 (write_file ''model_data/trees_data.json'' txt w25))))))))"
  by (auto simp: uuid4_def and_then_def extends_def open_w_def print_def write_file_def
      split: sum.splits option.splits)

lemma run_same:
  "same_until_export
     (snd (train_and_export_model env (w\<lparr>rng := g1, entropy := u1\<rparr>)))
     (snd (train_and_export_model env (w\<lparr>rng := g2, entropy := u2\<rparr>)))"
  unfolding train_and_export_model_def Let_def
  apply (rule step_same)
    apply (rule generate_in_agree; simp add: print_def)
   apply (rule generate_in_agree; simp add: print_def)
  apply (clarsimp simp del: json_text.simps enumerate_simps importance_loop.simps)
  apply (rule step_same, simp, simp add: agree_print,
      (clarsimp simp del: json_text.simps enumerate_simps importance_loop.simps)?)
  apply (rule step_same, simp, simp add: agree_print,
      (clarsimp simp del: json_text.simps enumerate_simps importance_loop.simps)?)
  apply (rule step_same, simp, simp add: agree_print,
      (clarsimp simp del: json_text.simps enumerate_simps importance_loop.simps)?)
  apply (rule step_same, simp, simp add: agree_print,
      (clarsimp simp del: json_text.simps enumerate_simps importance_loop.simps)?)
  apply (rule step_same, simp, simp add: agree_print,
      (clarsimp simp del: json_text.simps enumerate_simps importance_loop.simps)?)
  apply (rule step_same)
    apply (rule importance_loop_agree [THEN conjunct1], simp add: agree_print)
   apply (rule importance_loop_agree [THEN conjunct2], simp add: agree_print)
  apply (rule step_same)
    apply (erule open_w_agree)
   apply (erule open_w_agree)
  apply (rule tail_same [OF _ tail_extends tail_extends])
  apply (erule agree_write_file)
  done

text \<open>
  Claim C2. The run reseeds the global generator with 42 before drawing, and the splitter
  and the classifier are given their random state, so that scikit-learn computes them
  from their arguments alone. Two runs may start with the global generator in different
  states and receive different random identifiers from the operating system. They
  generate the same table and labels, they write the same importance file, and they
  print the same texts: all of them, or at least everything up to the announcement of
  the ONNX export, which comes after the accuracy and the classification report. Only
  what follows the conversion, whose graph name is a fresh identifier, can differ.
\<close>

theorem run_deterministic:
  "generate_synthetic_data rnd n_arg g1 = generate_synthetic_data rnd n_arg g2 \<and>
   files (snd (train_and_export_model env (w\<lparr>rng := g1, entropy := u1\<rparr>)))
       ''model_data/feature_importance.json'' =
     files (snd (train_and_export_model env (w\<lparr>rng := g2, entropy := u2\<rparr>)))
       ''model_data/feature_importance.json'' \<and>
   (stdout (snd (train_and_export_model env (w\<lparr>rng := g1, entropy := u1\<rparr>))) =
      stdout (snd (train_and_export_model env (w\<lparr>rng := g2, entropy := u2\<rparr>))) \<or>
    (\<exists>before after1 after2.
       stdout (snd (train_and_export_model env (w\<lparr>rng := g1, entropy := u1\<rparr>))) =
         before @ [CHR 0x0A # ''Exporting model to ONNX format...''] @ after1 \<and>
       stdout (snd (train_and_export_model env (w\<lparr>rng := g2, entropy := u2\<rparr>))) =
         before @ [CHR 0x0A # ''Exporting model to ONNX format...''] @ after2))"
proof -
  have "generate_synthetic_data rnd n_arg g1 = generate_synthetic_data rnd n_arg g2"
    by (simp add: generate_synthetic_data_def)
  with run_same [where env = env and w = w and ?g1.0 = g1 and ?g2.0 = g2 and ?u1.0 = u1 and ?u2.0 = u2]
  show ?thesis
    unfolding same_until_export_def by blast
qed


text \<open>
  The ONNX file is not part of what two runs share: with the stand-in libraries, two
  runs that receive different identifiers write different ONNX files.
\<close>

lemma onnx_file_may_differ:
  "\<exists>w1 w2. train_and_export_model demo_env demo_world = (Inr (), w1) \<and>
     train_and_export_model demo_env (demo_world\<lparr>entropy := (\<lambda>i. ''1a'')\<rparr>) = (Inr (), w2) \<and>
     files w1 ''onnx/random_forest_model.onnx'' \<noteq> files w2 ''onnx/random_forest_model.onnx''"
proof -
  obtain w1 where run1: "train_and_export_model demo_env demo_world = (Inr (), w1)"
    using demo_succeeds by blast
  obtain w2 where run2:
      "train_and_export_model demo_env (demo_world\<lparr>entropy := (\<lambda>i. ''1a'')\<rparr>) = (Inr (), w2)"
    using demo_succeeds by blast
  from run_Inr [OF run1] have "files w1 ''onnx/random_forest_model.onnx'' = Some ''onnx1000f''"
    by (auto simp: demo_env_def demo_onnx_def demo_sklearn_def demo_world_def forest_params_def
        str_nat.simps digit_char_def simp del: json_text.simps)
  moreover
  from run_Inr [OF run2] have "files w2 ''onnx/random_forest_model.onnx'' = Some ''onnx1001a''"
    by (auto simp: demo_env_def demo_onnx_def demo_sklearn_def demo_world_def forest_params_def
        str_nat.simps digit_char_def simp del: json_text.simps)
  ultimately show ?thesis
    using run1 run2 by simp
qed

end
